theory Spec2Isabelle
  imports Main
begin

section \<open>CPU features of the ARM target (runtime/vm/cpu_arm.h)\<close>

text \<open>
  The header declares two all-static classes. \<open>HostCPUFeatures\<close> owns six static data
  members; \<open>TargetCPUFeatures\<close> owns none and calls \<open>HostCPUFeatures\<close>. Every member
  function is a static function over that one set of globals, so the embedding passes
  the globals explicitly: an operation takes the state and gives back either an error or
  its return value together with the state it leaves behind.
\<close>

subsection \<open>Build configuration\<close>

text \<open>
  Two preprocessor symbols decide what the header compiles to: \<open>DEBUG\<close> (line 67, and the
  expansion of \<open>DEBUG_ASSERT\<close>) and \<open>HOST_ARCH_ARM\<close> (line 50). A build is a choice of both.
\<close>

record build_config =
  DEBUG :: bool
  HOST_ARCH_ARM :: bool

subsection \<open>The static data members (lines 62-69)\<close>

text \<open>
  A name here cannot end in an underscore, so each member \<open>x_\<close> of the source is the
  field \<open>x_m\<close>.
  \<open>hardware_m\<close> is a \<open>const char*\<close>: \<open>None\<close> is the null pointer, \<open>Some h\<close> a pointer to the
  string \<open>h\<close>. \<open>store_pc_read_offset_m\<close> is an \<open>intptr_t\<close> that is only stored and returned.
  \<open>initialized_m\<close> is declared under \<open>#if defined(DEBUG)\<close> only; in a build without \<open>DEBUG\<close>
  the member does not exist, and the model keeps it as a ghost field that no operation
  of such a build reads.
\<close>

record cpu_state =
  hardware_m :: "string option"
  integer_division_supported_m :: bool
  neon_supported_m :: bool
  hardfp_supported_m :: bool
  store_pc_read_offset_m :: int
  initialized_m :: bool

subsection \<open>Outcomes\<close>

text \<open>
  \<open>AssertionFailed\<close>: a \<open>DEBUG_ASSERT\<close> found its condition false and the process aborted.
  \<open>NotDeclared\<close>: the member is compiled out of this build (lines 50-59), so no call to
  it exists there.
\<close>

datatype error = AssertionFailed | NotDeclared

type_synonym 'a result = "error + ('a \<times> cpu_state)"

text \<open>
  Modelled from the spec: the macro \<open>DEBUG_ASSERT\<close> is defined outside this header. The
  accessors "assert initialization in debug builds (no-op check in release builds)":
  with \<open>DEBUG\<close> the assertion passes exactly when its condition holds, without \<open>DEBUG\<close> it
  expands to nothing and always passes.
\<close>

definition DEBUG_ASSERT :: "build_config \<Rightarrow> bool \<Rightarrow> bool" where
  "DEBUG_ASSERT cfg cond = (if DEBUG cfg then cond else True)"

subsection \<open>HostCPUFeatures: read accessors (lines 29-48)\<close>

definition HostCPUFeatures_hardware :: "build_config \<Rightarrow> cpu_state \<Rightarrow> string option result" where
  "HostCPUFeatures_hardware cfg s =
     (if DEBUG_ASSERT cfg (initialized_m s) then Inr (hardware_m s, s) else Inl AssertionFailed)"

definition HostCPUFeatures_integer_division_supported ::
    "build_config \<Rightarrow> cpu_state \<Rightarrow> bool result" where
  "HostCPUFeatures_integer_division_supported cfg s =
     (if DEBUG_ASSERT cfg (initialized_m s) then Inr (integer_division_supported_m s, s)
      else Inl AssertionFailed)"

definition HostCPUFeatures_neon_supported :: "build_config \<Rightarrow> cpu_state \<Rightarrow> bool result" where
  "HostCPUFeatures_neon_supported cfg s =
     (if DEBUG_ASSERT cfg (initialized_m s) then Inr (neon_supported_m s, s)
      else Inl AssertionFailed)"

definition HostCPUFeatures_hardfp_supported :: "build_config \<Rightarrow> cpu_state \<Rightarrow> bool result" where
  "HostCPUFeatures_hardfp_supported cfg s =
     (if DEBUG_ASSERT cfg (initialized_m s) then Inr (hardfp_supported_m s, s)
      else Inl AssertionFailed)"

definition HostCPUFeatures_store_pc_read_offset :: "build_config \<Rightarrow> cpu_state \<Rightarrow> int result" where
  "HostCPUFeatures_store_pc_read_offset cfg s =
     (if DEBUG_ASSERT cfg (initialized_m s) then Inr (store_pc_read_offset_m s, s)
      else Inl AssertionFailed)"

subsection \<open>HostCPUFeatures: override setters (lines 50-59)\<close>

text \<open>
  Both setters stand inside \<open>#if !defined(HOST_ARCH_ARM)\<close>: in a build whose host is ARM
  they are not declared.
\<close>

definition HostCPUFeatures_set_integer_division_supported ::
    "build_config \<Rightarrow> bool \<Rightarrow> cpu_state \<Rightarrow> unit result" where
  "HostCPUFeatures_set_integer_division_supported cfg supported s =
     (if HOST_ARCH_ARM cfg then Inl NotDeclared
      else if DEBUG_ASSERT cfg (initialized_m s)
        then Inr ((), s\<lparr>integer_division_supported_m := supported\<rparr>)
      else Inl AssertionFailed)"

definition HostCPUFeatures_set_neon_supported ::
    "build_config \<Rightarrow> bool \<Rightarrow> cpu_state \<Rightarrow> unit result" where
  "HostCPUFeatures_set_neon_supported cfg supported s =
     (if HOST_ARCH_ARM cfg then Inl NotDeclared
      else if DEBUG_ASSERT cfg (initialized_m s)
        then Inr ((), s\<lparr>neon_supported_m := supported\<rparr>)
      else Inl AssertionFailed)"

subsection \<open>HostCPUFeatures: lifecycle (lines 27-28, declarations only)\<close>

text \<open>
  What the probe of the environment found. \<open>Init()\<close> takes no argument; the probe is its
  input from the platform, made explicit. A field the probe could not recognise is
  \<open>None\<close>.
\<close>

record capability_descriptor =
  probed_hardware :: "string option"
  probed_integer_division :: "bool option"
  probed_neon :: "bool option"
  probed_hardfp :: "bool option"
  probed_store_pc_read_offset :: "int option"

definition no_recognizable_data :: capability_descriptor where
  "no_recognizable_data =
     \<lparr>probed_hardware = None, probed_integer_division = None, probed_neon = None,
      probed_hardfp = None, probed_store_pc_read_offset = None\<rparr>"

fun flag_or_default :: "bool option \<Rightarrow> bool" where
  "flag_or_default None = False"
| "flag_or_default (Some b) = b"

fun name_or_default :: "string option \<Rightarrow> string" where
  "name_or_default None = []"
| "name_or_default (Some h) = h"

text \<open>
  Modelled from the spec: the body of \<open>HostCPUFeatures::Init()\<close> is not in this header.
  "Populates hardwareName, integerDivisionSupported, vectorUnitSupported,
  hardFloatAbiSupported, storeProgramCounterReadOffset. Fails fatally
  (process-terminating assertion) if called while already initialized", the assertion
  being debug-only; a field the probe does not supply takes the "conservative default
  false/empty" value. The spec names no default for the integer offset: the model leaves
  the stored value as it is.
\<close>

definition HostCPUFeatures_Init ::
    "build_config \<Rightarrow> capability_descriptor \<Rightarrow> cpu_state \<Rightarrow> unit result" where
  "HostCPUFeatures_Init cfg probe s =
     (if DEBUG_ASSERT cfg (\<not> initialized_m s)
      then Inr ((),
        s\<lparr>hardware_m := Some (name_or_default (probed_hardware probe)),
          integer_division_supported_m := flag_or_default (probed_integer_division probe),
          neon_supported_m := flag_or_default (probed_neon probe),
          hardfp_supported_m := flag_or_default (probed_hardfp probe),
          store_pc_read_offset_m :=
            (case probed_store_pc_read_offset probe of
               None \<Rightarrow> store_pc_read_offset_m s
             | Some off \<Rightarrow> off),
          initialized_m := True\<rparr>)
      else Inl AssertionFailed)"

text \<open>
  Modelled from the spec: the body of \<open>HostCPUFeatures::Cleanup()\<close> is not in this header.
  "Releases the hardware name string and resets the initialized flag. Fails fatally if
  called without a prior Init()", the assertion being debug-only.
\<close>

definition HostCPUFeatures_Cleanup :: "build_config \<Rightarrow> cpu_state \<Rightarrow> unit result" where
  "HostCPUFeatures_Cleanup cfg s =
     (if DEBUG_ASSERT cfg (initialized_m s)
      then Inr ((), s\<lparr>hardware_m := None, initialized_m := False\<rparr>)
      else Inl AssertionFailed)"

subsection \<open>TargetCPUFeatures (lines 72-86)\<close>

definition TargetCPUFeatures_Init ::
    "build_config \<Rightarrow> capability_descriptor \<Rightarrow> cpu_state \<Rightarrow> unit result" where
  "TargetCPUFeatures_Init cfg probe s = HostCPUFeatures_Init cfg probe s"

definition TargetCPUFeatures_Cleanup :: "build_config \<Rightarrow> cpu_state \<Rightarrow> unit result" where
  "TargetCPUFeatures_Cleanup cfg s = HostCPUFeatures_Cleanup cfg s"

definition TargetCPUFeatures_double_truncate_round_supported ::
    "build_config \<Rightarrow> cpu_state \<Rightarrow> bool result" where
  "TargetCPUFeatures_double_truncate_round_supported cfg s = Inr (False, s)"

definition TargetCPUFeatures_integer_division_supported ::
    "build_config \<Rightarrow> cpu_state \<Rightarrow> bool result" where
  "TargetCPUFeatures_integer_division_supported cfg s =
     HostCPUFeatures_integer_division_supported cfg s"

definition TargetCPUFeatures_neon_supported :: "build_config \<Rightarrow> cpu_state \<Rightarrow> bool result" where
  "TargetCPUFeatures_neon_supported cfg s = HostCPUFeatures_neon_supported cfg s"

definition TargetCPUFeatures_hardfp_supported :: "build_config \<Rightarrow> cpu_state \<Rightarrow> bool result" where
  "TargetCPUFeatures_hardfp_supported cfg s = HostCPUFeatures_hardfp_supported cfg s"

definition TargetCPUFeatures_hardware :: "build_config \<Rightarrow> cpu_state \<Rightarrow> string option result" where
  "TargetCPUFeatures_hardware cfg s = HostCPUFeatures_hardware cfg s"

definition TargetCPUFeatures_store_pc_read_offset ::
    "build_config \<Rightarrow> cpu_state \<Rightarrow> int result" where
  "TargetCPUFeatures_store_pc_read_offset cfg s = HostCPUFeatures_store_pc_read_offset cfg s"

subsection \<open>Callers: one call, and a sequence of calls\<close>

text \<open>
  A client of the header makes calls one after another. \<open>call\<close> names each public member
  function of the two classes, \<open>exec\<close> runs one call, and \<open>run\<close> runs a sequence, stopping
  at the first call that does not return.
\<close>

datatype call =
    H_Init capability_descriptor
  | H_Cleanup
  | H_hardware
  | H_integer_division_supported
  | H_neon_supported
  | H_hardfp_supported
  | H_store_pc_read_offset
  | H_set_integer_division_supported bool
  | H_set_neon_supported bool
  | T_Init capability_descriptor
  | T_Cleanup
  | T_double_truncate_round_supported
  | T_integer_division_supported
  | T_neon_supported
  | T_hardfp_supported
  | T_hardware
  | T_store_pc_read_offset

datatype retval = VoidV | BoolV bool | StrV "string option" | IntV int

fun returning :: "('a \<Rightarrow> retval) \<Rightarrow> 'a result \<Rightarrow> retval result" where
  "returning f (Inl e) = Inl e"
| "returning f (Inr (v, s)) = Inr (f v, s)"

fun exec :: "build_config \<Rightarrow> call \<Rightarrow> cpu_state \<Rightarrow> retval result" where
  "exec cfg (H_Init probe) s = returning (\<lambda>_. VoidV) (HostCPUFeatures_Init cfg probe s)"
| "exec cfg H_Cleanup s = returning (\<lambda>_. VoidV) (HostCPUFeatures_Cleanup cfg s)"
| "exec cfg H_hardware s = returning StrV (HostCPUFeatures_hardware cfg s)"
| "exec cfg H_integer_division_supported s =
     returning BoolV (HostCPUFeatures_integer_division_supported cfg s)"
| "exec cfg H_neon_supported s = returning BoolV (HostCPUFeatures_neon_supported cfg s)"
| "exec cfg H_hardfp_supported s = returning BoolV (HostCPUFeatures_hardfp_supported cfg s)"
| "exec cfg H_store_pc_read_offset s =
     returning IntV (HostCPUFeatures_store_pc_read_offset cfg s)"
| "exec cfg (H_set_integer_division_supported b) s =
     returning (\<lambda>_. VoidV) (HostCPUFeatures_set_integer_division_supported cfg b s)"
| "exec cfg (H_set_neon_supported b) s =
     returning (\<lambda>_. VoidV) (HostCPUFeatures_set_neon_supported cfg b s)"
| "exec cfg (T_Init probe) s = returning (\<lambda>_. VoidV) (TargetCPUFeatures_Init cfg probe s)"
| "exec cfg T_Cleanup s = returning (\<lambda>_. VoidV) (TargetCPUFeatures_Cleanup cfg s)"
| "exec cfg T_double_truncate_round_supported s =
     returning BoolV (TargetCPUFeatures_double_truncate_round_supported cfg s)"
| "exec cfg T_integer_division_supported s =
     returning BoolV (TargetCPUFeatures_integer_division_supported cfg s)"
| "exec cfg T_neon_supported s = returning BoolV (TargetCPUFeatures_neon_supported cfg s)"
| "exec cfg T_hardfp_supported s = returning BoolV (TargetCPUFeatures_hardfp_supported cfg s)"
| "exec cfg T_hardware s = returning StrV (TargetCPUFeatures_hardware cfg s)"
| "exec cfg T_store_pc_read_offset s =
     returning IntV (TargetCPUFeatures_store_pc_read_offset cfg s)"

fun run :: "build_config \<Rightarrow> call list \<Rightarrow> cpu_state \<Rightarrow> error + cpu_state" where
  "run cfg [] s = Inr s"
| "run cfg (c # cs) s =
     (case exec cfg c s of Inl e \<Rightarrow> Inl e | Inr (v, s') \<Rightarrow> run cfg cs s')"

fun is_lifecycle :: "call \<Rightarrow> bool" where
  "is_lifecycle (H_Init probe) = True"
| "is_lifecycle H_Cleanup = True"
| "is_lifecycle (T_Init probe) = True"
| "is_lifecycle T_Cleanup = True"
| "is_lifecycle c = False"

fun is_init :: "call \<Rightarrow> bool" where
  "is_init (H_Init probe) = True"
| "is_init (T_Init probe) = True"
| "is_init c = False"

fun is_cleanup :: "call \<Rightarrow> bool" where
  "is_cleanup H_Cleanup = True"
| "is_cleanup T_Cleanup = True"
| "is_cleanup c = False"

fun is_read_accessor :: "call \<Rightarrow> bool" where
  "is_read_accessor H_hardware = True"
| "is_read_accessor H_integer_division_supported = True"
| "is_read_accessor H_neon_supported = True"
| "is_read_accessor H_hardfp_supported = True"
| "is_read_accessor H_store_pc_read_offset = True"
| "is_read_accessor T_integer_division_supported = True"
| "is_read_accessor T_neon_supported = True"
| "is_read_accessor T_hardfp_supported = True"
| "is_read_accessor T_hardware = True"
| "is_read_accessor T_store_pc_read_offset = True"
| "is_read_accessor c = False"

text \<open>Concrete builds and states, for evaluating the operations.\<close>

definition debug_simulator_build :: build_config where
  "debug_simulator_build = \<lparr>DEBUG = True, HOST_ARCH_ARM = False\<rparr>"

definition release_simulator_build :: build_config where
  "release_simulator_build = \<lparr>DEBUG = False, HOST_ARCH_ARM = False\<rparr>"

definition debug_native_build :: build_config where
  "debug_native_build = \<lparr>DEBUG = True, HOST_ARCH_ARM = True\<rparr>"

definition before_init :: cpu_state where
  "before_init =
     \<lparr>hardware_m = None, integer_division_supported_m = False, neon_supported_m = False,
      hardfp_supported_m = False, store_pc_read_offset_m = 8, initialized_m = False\<rparr>"

definition neon_only_probe :: capability_descriptor where
  "neon_only_probe =
     \<lparr>probed_hardware = Some ''ARMv7'', probed_integer_division = Some False,
      probed_neon = Some True, probed_hardfp = Some True,
      probed_store_pc_read_offset = Some 8\<rparr>"

definition after_init :: cpu_state where
  "after_init =
     \<lparr>hardware_m = Some ''ARMv7'', integer_division_supported_m = False, neon_supported_m = True,
      hardfp_supported_m = True, store_pc_read_offset_m = 8, initialized_m = True\<rparr>"

section \<open>Facts about single calls and runs\<close>

lemmas host_accessor_defs =
  HostCPUFeatures_hardware_def HostCPUFeatures_integer_division_supported_def
  HostCPUFeatures_neon_supported_def HostCPUFeatures_hardfp_supported_def
  HostCPUFeatures_store_pc_read_offset_def

lemmas target_accessor_defs =
  TargetCPUFeatures_hardware_def TargetCPUFeatures_integer_division_supported_def
  TargetCPUFeatures_neon_supported_def TargetCPUFeatures_hardfp_supported_def
  TargetCPUFeatures_store_pc_read_offset_def

lemmas setter_defs =
  HostCPUFeatures_set_integer_division_supported_def HostCPUFeatures_set_neon_supported_def

lemmas lifecycle_defs =
  HostCPUFeatures_Init_def HostCPUFeatures_Cleanup_def
  TargetCPUFeatures_Init_def TargetCPUFeatures_Cleanup_def

lemmas member_defs =
  host_accessor_defs target_accessor_defs setter_defs lifecycle_defs
  TargetCPUFeatures_double_truncate_round_supported_def

lemmas example_defs =
  debug_simulator_build_def release_simulator_build_def debug_native_build_def
  before_init_def after_init_def neon_only_probe_def no_recognizable_data_def

lemma exec_keeps_read_only_fields:
  assumes "\<not> is_lifecycle c" and "exec cfg c s = Inr (v, s')"
  shows "hardware_m s' = hardware_m s \<and> hardfp_supported_m s' = hardfp_supported_m s
       \<and> store_pc_read_offset_m s' = store_pc_read_offset_m s
       \<and> initialized_m s' = initialized_m s"
  using assms
  by (cases c) (auto simp: member_defs split: if_splits)

lemma exec_stays_initialized:
  assumes "\<not> is_cleanup c" and "initialized_m s" and "exec cfg c s = Inr (v, s')"
  shows "initialized_m s'"
  using assms
  by (cases c) (auto simp: member_defs split: if_splits)

lemma exec_stays_uninitialized:
  assumes "\<not> is_init c" and "\<not> initialized_m s" and "exec cfg c s = Inr (v, s')"
  shows "\<not> initialized_m s'"
  using assms
  by (cases c) (auto simp: member_defs split: if_splits)

lemma run_stays_initialized:
  assumes "\<forall>c \<in> set cs. \<not> is_cleanup c" and "initialized_m s" and "run cfg cs s = Inr s'"
  shows "initialized_m s'"
  using assms
proof (induction cs arbitrary: s)
  case Nil
  then show ?case by simp
next
  case (Cons c cs)
  from Cons.prems(3) obtain v s1 where
    step: "exec cfg c s = Inr (v, s1)" and rest: "run cfg cs s1 = Inr s'"
    by (auto split: sum.splits)
  from Cons.prems(1) have "\<not> is_cleanup c" by simp
  with Cons.prems(2) step have "initialized_m s1"
    using exec_stays_initialized by blast
  with Cons.IH Cons.prems(1) rest show ?case by simp
qed

lemma run_stays_uninitialized:
  assumes "\<forall>c \<in> set cs. \<not> is_init c" and "\<not> initialized_m s" and "run cfg cs s = Inr s'"
  shows "\<not> initialized_m s'"
  using assms
proof (induction cs arbitrary: s)
  case Nil
  then show ?case by simp
next
  case (Cons c cs)
  from Cons.prems(3) obtain v s1 where
    step: "exec cfg c s = Inr (v, s1)" and rest: "run cfg cs s1 = Inr s'"
    by (auto split: sum.splits)
  from Cons.prems(1) have "\<not> is_init c" by simp
  with Cons.prems(2) step have "\<not> initialized_m s1"
    using exec_stays_uninitialized by blast
  with Cons.IH Cons.prems(1) rest show ?case by simp
qed

lemma exec_init_sets_initialized:
  assumes "is_init c" and "exec cfg c s = Inr (v, s')"
  shows "initialized_m s'"
  using assms
  by (cases c) (auto simp: member_defs split: if_splits)

lemma exec_cleanup_resets_initialized:
  assumes "is_cleanup c" and "exec cfg c s = Inr (v, s')"
  shows "\<not> initialized_m s'"
  using assms
  by (cases c) (auto simp: member_defs split: if_splits)

lemma exec_init_guarded:
  assumes "DEBUG cfg" and "is_init c" and "initialized_m s"
  shows "exec cfg c s = Inl AssertionFailed"
  using assms
  by (cases c) (auto simp: member_defs DEBUG_ASSERT_def)

lemma exec_cleanup_guarded:
  assumes "DEBUG cfg" and "is_cleanup c" and "\<not> initialized_m s"
  shows "exec cfg c s = Inl AssertionFailed"
  using assms
  by (cases c) (auto simp: member_defs DEBUG_ASSERT_def)

lemma exec_read_accessor_guarded:
  assumes "DEBUG cfg" and "is_read_accessor c" and "\<not> initialized_m s"
  shows "exec cfg c s = Inl AssertionFailed"
  using assms
  by (cases c) (auto simp: member_defs DEBUG_ASSERT_def)

lemma exec_read_accessor_pure:
  assumes "is_read_accessor c" and "exec cfg c s = Inr (v, s')"
  shows "s' = s"
  using assms
  by (cases c) (auto simp: member_defs split: if_splits)

lemma exec_read_accessor_returns:
  assumes "is_read_accessor c" and "initialized_m s"
  shows "\<exists>v. exec cfg c s = Inr (v, s)"
  using assms
  by (cases c) (auto simp: member_defs DEBUG_ASSERT_def)


section \<open>Properties\<close>

subsection \<open>TargetCPUFeatures forwards\<close>

text \<open>
  C1. Every operation of \<open>TargetCPUFeatures\<close> other than
  \<open>double_truncate_round_supported\<close> is the operation of the same name of
  \<open>HostCPUFeatures\<close>: in every build and every state (so in every state reached after
  \<open>Init()\<close>) the five accessors give the same outcome, value and state as the host
  accessors, and \<open>Init()\<close> and \<open>Cleanup()\<close> have the effect of the host's.
\<close>

theorem target_forwards_to_host:
  "TargetCPUFeatures_integer_division_supported cfg s =
     HostCPUFeatures_integer_division_supported cfg s
   \<and> TargetCPUFeatures_neon_supported cfg s = HostCPUFeatures_neon_supported cfg s
   \<and> TargetCPUFeatures_hardfp_supported cfg s = HostCPUFeatures_hardfp_supported cfg s
   \<and> TargetCPUFeatures_hardware cfg s = HostCPUFeatures_hardware cfg s
   \<and> TargetCPUFeatures_store_pc_read_offset cfg s = HostCPUFeatures_store_pc_read_offset cfg s
   \<and> TargetCPUFeatures_Init cfg probe s = HostCPUFeatures_Init cfg probe s
   \<and> TargetCPUFeatures_Cleanup cfg s = HostCPUFeatures_Cleanup cfg s"
  by (simp add: TargetCPUFeatures_integer_division_supported_def
      TargetCPUFeatures_neon_supported_def TargetCPUFeatures_hardfp_supported_def
      TargetCPUFeatures_hardware_def TargetCPUFeatures_store_pc_read_offset_def
      TargetCPUFeatures_Init_def TargetCPUFeatures_Cleanup_def)

subsection \<open>The architecture constant\<close>

text \<open>
  C2. \<open>TargetCPUFeatures::double_truncate_round_supported()\<close> returns \<open>false\<close> in every
  build and every state, initialized or not, whatever the members hold, and leaves the
  state as it found it; in particular it returns \<open>false\<close> in the state left by any
  sequence of calls, such as calls of the two setters.
\<close>

theorem double_truncate_round_supported_false:
  "TargetCPUFeatures_double_truncate_round_supported cfg s = Inr (False, s)
   \<and> (run cfg cs s = Inr s' \<longrightarrow>
        TargetCPUFeatures_double_truncate_round_supported cfg s' = Inr (False, s'))"
  by (simp add: TargetCPUFeatures_double_truncate_round_supported_def)

theorem double_truncate_round_supported_false_witness:
  "TargetCPUFeatures_double_truncate_round_supported debug_simulator_build before_init
     = Inr (False, before_init)
   \<and> run debug_simulator_build
       [H_set_integer_division_supported True, H_set_neon_supported False] after_init
       = Inr (after_init\<lparr>integer_division_supported_m := True, neon_supported_m := False\<rparr>)
   \<and> TargetCPUFeatures_double_truncate_round_supported debug_simulator_build
       (after_init\<lparr>integer_division_supported_m := True, neon_supported_m := False\<rparr>)
       = Inr (False,
           after_init\<lparr>integer_division_supported_m := True, neon_supported_m := False\<rparr>)"
proof -
  have r: "run debug_simulator_build
             [H_set_integer_division_supported True, H_set_neon_supported False] after_init
           = Inr (after_init\<lparr>integer_division_supported_m := True,
                   neon_supported_m := False\<rparr>)"
    by (simp add: setter_defs DEBUG_ASSERT_def example_defs)
  show ?thesis
    using r
      double_truncate_round_supported_false [of debug_simulator_build before_init
        "[]" before_init]
      double_truncate_round_supported_false [of debug_simulator_build after_init
        "[H_set_integer_division_supported True, H_set_neon_supported False]"
        "after_init\<lparr>integer_division_supported_m := True, neon_supported_m := False\<rparr>"]
    by simp
qed

subsection \<open>Overrides seen through the target view\<close>

text \<open>
  C3. In a build whose host is not ARM, in every initialized state and for every
  boolean \<open>b\<close>: \<open>HostCPUFeatures::set_integer_division_supported(b)\<close> returns, and
  \<open>TargetCPUFeatures::integer_division_supported()\<close> called next returns \<open>b\<close>; the same holds
  for \<open>set_neon_supported(b)\<close> and \<open>TargetCPUFeatures::neon_supported()\<close>.
\<close>

theorem setter_round_trip:
  assumes "\<not> HOST_ARCH_ARM cfg" and "initialized_m s"
  shows "(\<exists>s'. HostCPUFeatures_set_integer_division_supported cfg b s = Inr ((), s')
            \<and> TargetCPUFeatures_integer_division_supported cfg s' = Inr (b, s'))
       \<and> (\<exists>s'. HostCPUFeatures_set_neon_supported cfg b s = Inr ((), s')
            \<and> TargetCPUFeatures_neon_supported cfg s' = Inr (b, s'))"
  using assms
  by (simp add: setter_defs target_accessor_defs host_accessor_defs DEBUG_ASSERT_def)

theorem setter_round_trip_witness:
  "\<not> HOST_ARCH_ARM debug_simulator_build \<and> initialized_m after_init
   \<and> (\<exists>s'. HostCPUFeatures_set_integer_division_supported debug_simulator_build True after_init
               = Inr ((), s')
            \<and> TargetCPUFeatures_integer_division_supported debug_simulator_build s'
               = Inr (True, s'))
   \<and> (\<exists>s'. HostCPUFeatures_set_neon_supported debug_simulator_build True after_init
               = Inr ((), s')
            \<and> TargetCPUFeatures_neon_supported debug_simulator_build s' = Inr (True, s'))"
proof -
  have a: "\<not> HOST_ARCH_ARM debug_simulator_build"
    by (simp add: debug_simulator_build_def)
  have b: "initialized_m after_init"
    by (simp add: after_init_def)
  show ?thesis
    using a b setter_round_trip [OF a b, of True] by simp
qed

subsection \<open>The initialization guard of the read accessors\<close>

text \<open>
  C4. In a build with \<open>DEBUG\<close>, each of the five read accessors of \<open>HostCPUFeatures\<close>
  asserts \<open>initialized_\<close>: in a state where it is false (before \<open>Init()\<close> has completed) the
  assertion fails, in a state where it is true the call returns the cached member and
  leaves the state alone. A state left by \<open>Cleanup()\<close> is one where every accessor's
  assertion fails.
\<close>

theorem host_accessors_guarded:
  assumes "DEBUG cfg"
  shows "HostCPUFeatures_hardware cfg s =
           (if initialized_m s then Inr (hardware_m s, s) else Inl AssertionFailed)
       \<and> HostCPUFeatures_integer_division_supported cfg s =
           (if initialized_m s then Inr (integer_division_supported_m s, s)
            else Inl AssertionFailed)
       \<and> HostCPUFeatures_neon_supported cfg s =
           (if initialized_m s then Inr (neon_supported_m s, s) else Inl AssertionFailed)
       \<and> HostCPUFeatures_hardfp_supported cfg s =
           (if initialized_m s then Inr (hardfp_supported_m s, s) else Inl AssertionFailed)
       \<and> HostCPUFeatures_store_pc_read_offset cfg s =
           (if initialized_m s then Inr (store_pc_read_offset_m s, s)
            else Inl AssertionFailed)
       \<and> (HostCPUFeatures_Cleanup cfg s0 = Inr ((), s1) \<longrightarrow>
            HostCPUFeatures_hardware cfg s1 = Inl AssertionFailed
          \<and> HostCPUFeatures_integer_division_supported cfg s1 = Inl AssertionFailed
          \<and> HostCPUFeatures_neon_supported cfg s1 = Inl AssertionFailed
          \<and> HostCPUFeatures_hardfp_supported cfg s1 = Inl AssertionFailed
          \<and> HostCPUFeatures_store_pc_read_offset cfg s1 = Inl AssertionFailed)"
  using assms
  by (auto simp: host_accessor_defs HostCPUFeatures_Cleanup_def DEBUG_ASSERT_def
      split: if_splits)

theorem host_accessors_guarded_witness:
  "DEBUG debug_simulator_build
   \<and> HostCPUFeatures_hardware debug_simulator_build before_init = Inl AssertionFailed
   \<and> HostCPUFeatures_hardware debug_simulator_build after_init
       = Inr (Some ''ARMv7'', after_init)
   \<and> HostCPUFeatures_neon_supported debug_simulator_build after_init = Inr (True, after_init)
   \<and> HostCPUFeatures_store_pc_read_offset debug_simulator_build after_init
       = Inr (8, after_init)
   \<and> HostCPUFeatures_Cleanup debug_simulator_build after_init
       = Inr ((), after_init\<lparr>hardware_m := None, initialized_m := False\<rparr>)
   \<and> HostCPUFeatures_integer_division_supported debug_simulator_build
       (after_init\<lparr>hardware_m := None, initialized_m := False\<rparr>) = Inl AssertionFailed"
proof -
  have d: "DEBUG debug_simulator_build"
    by (simp add: debug_simulator_build_def)
  have c: "HostCPUFeatures_Cleanup debug_simulator_build after_init
             = Inr ((), after_init\<lparr>hardware_m := None, initialized_m := False\<rparr>)"
    by (simp add: HostCPUFeatures_Cleanup_def DEBUG_ASSERT_def example_defs)
  show ?thesis
    using d c
      host_accessors_guarded [OF d, of before_init after_init
        "after_init\<lparr>hardware_m := None, initialized_m := False\<rparr>"]
      host_accessors_guarded [OF d, of after_init after_init
        "after_init\<lparr>hardware_m := None, initialized_m := False\<rparr>"]
    by (simp add: before_init_def after_init_def)
qed

subsection \<open>Init and Cleanup as a pair\<close>

text \<open>
  C5. In a build with \<open>DEBUG\<close>: \<open>Init()\<close> called in an initialized state fails its
  assertion, and \<open>Cleanup()\<close> called in an uninitialized state fails its assertion. Over
  call sequences: after an \<open>Init()\<close> that returned, followed by any calls none of which
  is a \<open>Cleanup()\<close> and all of which returned, a further \<open>Init()\<close> (of either class) fails
  its assertion; and from an uninitialized state, after any calls none of which is an
  \<open>Init()\<close> and all of which returned, a \<open>Cleanup()\<close> (of either class) fails its assertion.
\<close>

theorem init_cleanup_strict_pair:
  assumes "DEBUG cfg"
  shows "(initialized_m si \<longrightarrow> HostCPUFeatures_Init cfg probe si = Inl AssertionFailed)
       \<and> (\<not> initialized_m su \<longrightarrow> HostCPUFeatures_Cleanup cfg su = Inl AssertionFailed)
       \<and> (is_init c0 \<longrightarrow> exec cfg c0 s = Inr (v, s1) \<longrightarrow> (\<forall>c \<in> set cs. \<not> is_cleanup c) \<longrightarrow>
            run cfg cs s1 = Inr s2 \<longrightarrow> is_init c1 \<longrightarrow> exec cfg c1 s2 = Inl AssertionFailed)
       \<and> (\<not> initialized_m su \<longrightarrow> (\<forall>c \<in> set ds. \<not> is_init c) \<longrightarrow> run cfg ds su = Inr s3 \<longrightarrow>
            is_cleanup c2 \<longrightarrow> exec cfg c2 s3 = Inl AssertionFailed)"
proof (intro conjI impI)
  assume "initialized_m si"
  with assms show "HostCPUFeatures_Init cfg probe si = Inl AssertionFailed"
    by (simp add: HostCPUFeatures_Init_def DEBUG_ASSERT_def)
next
  assume "\<not> initialized_m su"
  with assms show "HostCPUFeatures_Cleanup cfg su = Inl AssertionFailed"
    by (simp add: HostCPUFeatures_Cleanup_def DEBUG_ASSERT_def)
next
  assume first: "is_init c0" "exec cfg c0 s = Inr (v, s1)"
    and between: "\<forall>c \<in> set cs. \<not> is_cleanup c" "run cfg cs s1 = Inr s2"
    and again: "is_init c1"
  from first have "initialized_m s1"
    by (rule exec_init_sets_initialized)
  with between have "initialized_m s2"
    using run_stays_initialized by blast
  with assms again show "exec cfg c1 s2 = Inl AssertionFailed"
    using exec_init_guarded by blast
next
  assume start: "\<not> initialized_m su"
    and between: "\<forall>c \<in> set ds. \<not> is_init c" "run cfg ds su = Inr s3"
    and cleanup: "is_cleanup c2"
  from between start have "\<not> initialized_m s3"
    using run_stays_uninitialized by blast
  with assms cleanup show "exec cfg c2 s3 = Inl AssertionFailed"
    using exec_cleanup_guarded by blast
qed

theorem init_cleanup_strict_pair_witness:
  "DEBUG debug_simulator_build \<and> initialized_m after_init \<and> \<not> initialized_m before_init
   \<and> HostCPUFeatures_Init debug_simulator_build neon_only_probe after_init
       = Inl AssertionFailed
   \<and> HostCPUFeatures_Cleanup debug_simulator_build before_init = Inl AssertionFailed
   \<and> exec debug_simulator_build (T_Init neon_only_probe) before_init = Inr (VoidV, after_init)
   \<and> run debug_simulator_build [T_neon_supported, H_set_integer_division_supported True]
       after_init = Inr (after_init\<lparr>integer_division_supported_m := True\<rparr>)
   \<and> exec debug_simulator_build (H_Init no_recognizable_data)
       (after_init\<lparr>integer_division_supported_m := True\<rparr>) = Inl AssertionFailed
   \<and> run debug_simulator_build [T_double_truncate_round_supported] before_init
       = Inr before_init
   \<and> exec debug_simulator_build T_Cleanup before_init = Inl AssertionFailed"
proof -
  have d: "DEBUG debug_simulator_build"
    by (simp add: debug_simulator_build_def)
  have i: "initialized_m after_init" and u: "\<not> initialized_m before_init"
    by (simp_all add: after_init_def before_init_def)
  have e0: "exec debug_simulator_build (T_Init neon_only_probe) before_init
              = Inr (VoidV, after_init)"
    by (simp add: member_defs DEBUG_ASSERT_def example_defs)
  have r1: "run debug_simulator_build [T_neon_supported, H_set_integer_division_supported True]
              after_init = Inr (after_init\<lparr>integer_division_supported_m := True\<rparr>)"
    by (simp add: member_defs DEBUG_ASSERT_def example_defs)
  have r2: "run debug_simulator_build [T_double_truncate_round_supported] before_init
              = Inr before_init"
    by (simp add: member_defs)
  show ?thesis
    using d i u e0 r1 r2
      init_cleanup_strict_pair [OF d, of after_init neon_only_probe before_init
        "T_Init neon_only_probe" before_init VoidV after_init
        "[T_neon_supported, H_set_integer_division_supported True]"
        "after_init\<lparr>integer_division_supported_m := True\<rparr>" "H_Init no_recognizable_data"
        "[T_double_truncate_round_supported]" before_init T_Cleanup]
    by simp
qed

subsection \<open>What the setters and the other calls leave alone\<close>

text \<open>
  C6. In a build whose host is not ARM, in every initialized state and for every boolean
  \<open>b\<close>: \<open>set_integer_division_supported(b)\<close> returns and leaves the state with
  \<open>integer_division_supported_\<close> equal to \<open>b\<close> and every other member as it was;
  \<open>set_neon_supported(b)\<close> does the same for \<open>neon_supported_\<close>. Every call of either class
  other than \<open>Init()\<close> and \<open>Cleanup()\<close> that returns leaves \<open>hardware_\<close>,
  \<open>hardfp_supported_\<close>, \<open>store_pc_read_offset_\<close> and \<open>initialized_\<close> as they were.
\<close>

theorem setters_frame:
  assumes "\<not> HOST_ARCH_ARM cfg" and "initialized_m s"
  shows "HostCPUFeatures_set_integer_division_supported cfg b s
           = Inr ((), s\<lparr>integer_division_supported_m := b\<rparr>)
       \<and> HostCPUFeatures_set_neon_supported cfg b s = Inr ((), s\<lparr>neon_supported_m := b\<rparr>)
       \<and> (\<not> is_lifecycle c \<longrightarrow> exec cfg c s = Inr (v, s') \<longrightarrow>
            hardware_m s' = hardware_m s \<and> hardfp_supported_m s' = hardfp_supported_m s
          \<and> store_pc_read_offset_m s' = store_pc_read_offset_m s
          \<and> initialized_m s' = initialized_m s)"
proof (intro conjI impI)
  from assms show "HostCPUFeatures_set_integer_division_supported cfg b s
                     = Inr ((), s\<lparr>integer_division_supported_m := b\<rparr>)"
    by (simp add: HostCPUFeatures_set_integer_division_supported_def DEBUG_ASSERT_def)
next
  from assms show "HostCPUFeatures_set_neon_supported cfg b s
                     = Inr ((), s\<lparr>neon_supported_m := b\<rparr>)"
    by (simp add: HostCPUFeatures_set_neon_supported_def DEBUG_ASSERT_def)
next
  assume c: "\<not> is_lifecycle c" "exec cfg c s = Inr (v, s')"
  then show "hardware_m s' = hardware_m s"
    and "hardfp_supported_m s' = hardfp_supported_m s"
    and "store_pc_read_offset_m s' = store_pc_read_offset_m s"
    and "initialized_m s' = initialized_m s"
    using exec_keeps_read_only_fields by blast+
qed

theorem setters_frame_witness:
  "\<not> HOST_ARCH_ARM release_simulator_build \<and> initialized_m after_init
   \<and> HostCPUFeatures_set_integer_division_supported release_simulator_build True after_init
       = Inr ((), after_init\<lparr>integer_division_supported_m := True\<rparr>)
   \<and> HostCPUFeatures_set_neon_supported release_simulator_build False after_init
       = Inr ((), after_init\<lparr>neon_supported_m := False\<rparr>)
   \<and> \<not> is_lifecycle (H_set_neon_supported False)
   \<and> exec release_simulator_build (H_set_neon_supported False) after_init
       = Inr (VoidV, after_init\<lparr>neon_supported_m := False\<rparr>)
   \<and> hardware_m (after_init\<lparr>neon_supported_m := False\<rparr>) = hardware_m after_init
   \<and> hardfp_supported_m (after_init\<lparr>neon_supported_m := False\<rparr>)
       = hardfp_supported_m after_init
   \<and> store_pc_read_offset_m (after_init\<lparr>neon_supported_m := False\<rparr>)
       = store_pc_read_offset_m after_init
   \<and> initialized_m (after_init\<lparr>neon_supported_m := False\<rparr>) = initialized_m after_init"
proof -
  have a: "\<not> HOST_ARCH_ARM release_simulator_build"
    by (simp add: release_simulator_build_def)
  have i: "initialized_m after_init"
    by (simp add: after_init_def)
  have e: "exec release_simulator_build (H_set_neon_supported False) after_init
             = Inr (VoidV, after_init\<lparr>neon_supported_m := False\<rparr>)"
    by (simp add: HostCPUFeatures_set_neon_supported_def DEBUG_ASSERT_def example_defs)
  show ?thesis
    using a i e
      setters_frame [OF a i, of True "H_set_neon_supported False" VoidV
        "after_init\<lparr>neon_supported_m := False\<rparr>"]
      setters_frame [OF a i, of False "H_set_neon_supported False" VoidV
        "after_init\<lparr>neon_supported_m := False\<rparr>"]
    by simp
qed

subsection \<open>Detection that finds nothing\<close>

text \<open>
  C7. When the probe yields no recognizable data, \<open>Init()\<close> called in an uninitialized
  state returns, and in the state it leaves \<open>integer_division_supported()\<close>,
  \<open>neon_supported()\<close> and \<open>hardfp_supported()\<close> return \<open>false\<close> and \<open>hardware()\<close> returns the
  empty string, through either class.
\<close>

theorem init_defaults:
  assumes "\<not> initialized_m s"
  shows "\<exists>s'. HostCPUFeatures_Init cfg no_recognizable_data s = Inr ((), s')
       \<and> HostCPUFeatures_integer_division_supported cfg s' = Inr (False, s')
       \<and> HostCPUFeatures_neon_supported cfg s' = Inr (False, s')
       \<and> HostCPUFeatures_hardfp_supported cfg s' = Inr (False, s')
       \<and> HostCPUFeatures_hardware cfg s' = Inr (Some [], s')
       \<and> TargetCPUFeatures_integer_division_supported cfg s' = Inr (False, s')
       \<and> TargetCPUFeatures_neon_supported cfg s' = Inr (False, s')
       \<and> TargetCPUFeatures_hardfp_supported cfg s' = Inr (False, s')
       \<and> TargetCPUFeatures_hardware cfg s' = Inr (Some [], s')"
  using assms
  by (simp add: HostCPUFeatures_Init_def host_accessor_defs target_accessor_defs
      DEBUG_ASSERT_def no_recognizable_data_def)

theorem init_defaults_witness:
  "\<not> initialized_m before_init
   \<and> (\<exists>s'. HostCPUFeatures_Init debug_simulator_build no_recognizable_data before_init
              = Inr ((), s')
       \<and> HostCPUFeatures_integer_division_supported debug_simulator_build s' = Inr (False, s')
       \<and> HostCPUFeatures_neon_supported debug_simulator_build s' = Inr (False, s')
       \<and> HostCPUFeatures_hardfp_supported debug_simulator_build s' = Inr (False, s')
       \<and> HostCPUFeatures_hardware debug_simulator_build s' = Inr (Some [], s'))"
proof -
  have u: "\<not> initialized_m before_init"
    by (simp add: before_init_def)
  from init_defaults [OF u, of debug_simulator_build] obtain s' where
    "HostCPUFeatures_Init debug_simulator_build no_recognizable_data before_init = Inr ((), s')"
    "HostCPUFeatures_integer_division_supported debug_simulator_build s' = Inr (False, s')"
    "HostCPUFeatures_neon_supported debug_simulator_build s' = Inr (False, s')"
    "HostCPUFeatures_hardfp_supported debug_simulator_build s' = Inr (False, s')"
    "HostCPUFeatures_hardware debug_simulator_build s' = Inr (Some [], s')"
    by blast
  with u show ?thesis by blast
qed

subsection \<open>Read accessors change nothing\<close>

text \<open>
  C8. In every initialized state, each of the five read accessors of \<open>HostCPUFeatures\<close>
  and of the five of \<open>TargetCPUFeatures\<close> returns a value and leaves the state, all six
  members, exactly as it was; so the same accessor called again at once returns the same
  value.
\<close>

theorem read_accessors_pure:
  assumes "initialized_m s" and "is_read_accessor c"
  shows "\<exists>v s'. exec cfg c s = Inr (v, s') \<and> s' = s \<and> exec cfg c s' = Inr (v, s')"
  using assms exec_read_accessor_returns by blast

theorem read_accessors_pure_witness:
  "initialized_m after_init \<and> is_read_accessor T_hardware
   \<and> (\<exists>v s'. exec debug_simulator_build T_hardware after_init = Inr (v, s')
         \<and> s' = after_init \<and> exec debug_simulator_build T_hardware s' = Inr (v, s'))
   \<and> exec debug_simulator_build T_hardware after_init = Inr (StrV (Some ''ARMv7''), after_init)"
proof -
  have i: "initialized_m after_init"
    by (simp add: after_init_def)
  have a: "is_read_accessor T_hardware"
    by simp
  have e: "exec debug_simulator_build T_hardware after_init
             = Inr (StrV (Some ''ARMv7''), after_init)"
    by (simp add: member_defs DEBUG_ASSERT_def example_defs)
  show ?thesis
    using i a e read_accessors_pure [OF i a, of debug_simulator_build] by blast
qed

subsection \<open>The one accessor without a guard\<close>

text \<open>
  C9. \<open>TargetCPUFeatures::double_truncate_round_supported()\<close> has no assertion: in an
  uninitialized state, in any build, it returns \<open>false\<close>, where in a build with \<open>DEBUG\<close>
  every other read accessor of either class fails its assertion; and in the state left
  by a \<open>Cleanup()\<close> it returns \<open>false\<close> as well.
\<close>

theorem double_truncate_round_supported_unguarded:
  assumes "\<not> initialized_m s"
  shows "TargetCPUFeatures_double_truncate_round_supported cfg s = Inr (False, s)
       \<and> exec cfg T_double_truncate_round_supported s = Inr (BoolV False, s)
       \<and> (DEBUG cfg \<longrightarrow> is_read_accessor c \<longrightarrow> exec cfg c s = Inl AssertionFailed)
       \<and> (is_cleanup c' \<longrightarrow> exec cfg c' s0 = Inr (v, s1) \<longrightarrow>
            \<not> initialized_m s1
          \<and> TargetCPUFeatures_double_truncate_round_supported cfg s1 = Inr (False, s1))"
proof (intro conjI impI)
  show "TargetCPUFeatures_double_truncate_round_supported cfg s = Inr (False, s)"
    by (simp add: TargetCPUFeatures_double_truncate_round_supported_def)
next
  show "exec cfg T_double_truncate_round_supported s = Inr (BoolV False, s)"
    by (simp add: TargetCPUFeatures_double_truncate_round_supported_def)
next
  assume "DEBUG cfg" and "is_read_accessor c"
  with assms show "exec cfg c s = Inl AssertionFailed"
    using exec_read_accessor_guarded by blast
next
  assume "is_cleanup c'" and "exec cfg c' s0 = Inr (v, s1)"
  then show "\<not> initialized_m s1"
    by (rule exec_cleanup_resets_initialized)
next
  show "TargetCPUFeatures_double_truncate_round_supported cfg s1 = Inr (False, s1)"
    by (simp add: TargetCPUFeatures_double_truncate_round_supported_def)
qed

theorem double_truncate_round_supported_unguarded_witness:
  "\<not> initialized_m before_init \<and> DEBUG debug_native_build
   \<and> TargetCPUFeatures_double_truncate_round_supported debug_native_build before_init
       = Inr (False, before_init)
   \<and> exec debug_native_build T_double_truncate_round_supported before_init
       = Inr (BoolV False, before_init)
   \<and> is_read_accessor T_neon_supported
   \<and> exec debug_native_build T_neon_supported before_init = Inl AssertionFailed
   \<and> is_cleanup T_Cleanup
   \<and> exec debug_native_build T_Cleanup after_init
       = Inr (VoidV, after_init\<lparr>hardware_m := None, initialized_m := False\<rparr>)
   \<and> TargetCPUFeatures_double_truncate_round_supported debug_native_build
       (after_init\<lparr>hardware_m := None, initialized_m := False\<rparr>)
       = Inr (False, after_init\<lparr>hardware_m := None, initialized_m := False\<rparr>)"
proof -
  have u: "\<not> initialized_m before_init"
    by (simp add: before_init_def)
  have d: "DEBUG debug_native_build"
    by (simp add: debug_native_build_def)
  have e: "exec debug_native_build T_Cleanup after_init
             = Inr (VoidV, after_init\<lparr>hardware_m := None, initialized_m := False\<rparr>)"
    by (simp add: lifecycle_defs DEBUG_ASSERT_def example_defs)
  show ?thesis
    using u d e
      double_truncate_round_supported_unguarded [OF u, of debug_native_build
        T_neon_supported T_Cleanup after_init VoidV
        "after_init\<lparr>hardware_m := None, initialized_m := False\<rparr>"]
    by simp
qed

subsection \<open>The initialization guard of the setters\<close>

text \<open>
  C10. In a build with \<open>DEBUG\<close> whose host is not ARM, in an uninitialized state both
  setters fail their assertion, the failure the read accessors give there, and they
  leave no state behind; the same holds in the state left by a \<open>Cleanup()\<close>.
\<close>

theorem setters_guarded:
  assumes "DEBUG cfg" and "\<not> HOST_ARCH_ARM cfg" and "\<not> initialized_m s"
  shows "HostCPUFeatures_set_integer_division_supported cfg b s = Inl AssertionFailed
       \<and> HostCPUFeatures_set_neon_supported cfg b s = Inl AssertionFailed
       \<and> HostCPUFeatures_integer_division_supported cfg s = Inl AssertionFailed
       \<and> HostCPUFeatures_neon_supported cfg s = Inl AssertionFailed
       \<and> (is_cleanup c \<longrightarrow> exec cfg c s0 = Inr (v, s1) \<longrightarrow>
            HostCPUFeatures_set_integer_division_supported cfg b s1 = Inl AssertionFailed
          \<and> HostCPUFeatures_set_neon_supported cfg b s1 = Inl AssertionFailed)"
proof -
  have guard: "HostCPUFeatures_set_integer_division_supported cfg b t = Inl AssertionFailed
             \<and> HostCPUFeatures_set_neon_supported cfg b t = Inl AssertionFailed
             \<and> HostCPUFeatures_integer_division_supported cfg t = Inl AssertionFailed
             \<and> HostCPUFeatures_neon_supported cfg t = Inl AssertionFailed"
    if "\<not> initialized_m t" for t
    using assms(1,2) that by (simp add: setter_defs host_accessor_defs DEBUG_ASSERT_def)
  have "\<not> initialized_m s1" if "is_cleanup c" and "exec cfg c s0 = Inr (v, s1)"
    using that by (rule exec_cleanup_resets_initialized)
  with guard [of s] guard [of s1] assms(3) show ?thesis by blast
qed

theorem setters_guarded_witness:
  "DEBUG debug_simulator_build \<and> \<not> HOST_ARCH_ARM debug_simulator_build
   \<and> \<not> initialized_m before_init
   \<and> HostCPUFeatures_set_integer_division_supported debug_simulator_build True before_init
       = Inl AssertionFailed
   \<and> HostCPUFeatures_set_neon_supported debug_simulator_build True before_init
       = Inl AssertionFailed
   \<and> HostCPUFeatures_integer_division_supported debug_simulator_build before_init
       = Inl AssertionFailed
   \<and> is_cleanup H_Cleanup
   \<and> exec debug_simulator_build H_Cleanup after_init
       = Inr (VoidV, after_init\<lparr>hardware_m := None, initialized_m := False\<rparr>)
   \<and> HostCPUFeatures_set_neon_supported debug_simulator_build True
       (after_init\<lparr>hardware_m := None, initialized_m := False\<rparr>) = Inl AssertionFailed"
proof -
  have d: "DEBUG debug_simulator_build" and a: "\<not> HOST_ARCH_ARM debug_simulator_build"
    by (simp_all add: debug_simulator_build_def)
  have u: "\<not> initialized_m before_init"
    by (simp add: before_init_def)
  have e: "exec debug_simulator_build H_Cleanup after_init
             = Inr (VoidV, after_init\<lparr>hardware_m := None, initialized_m := False\<rparr>)"
    by (simp add: lifecycle_defs DEBUG_ASSERT_def example_defs)
  show ?thesis
    using d a u e
      setters_guarded [OF d a u, of True H_Cleanup after_init VoidV
        "after_init\<lparr>hardware_m := None, initialized_m := False\<rparr>"]
    by simp
qed

end
